theory Spec2Isabelle
  imports Main
begin

section \<open>JavaScript values\<close>

text \<open>
  The SDK is JavaScript: bodies, query parameters and error payloads are untyped values.
  They are modelled by the JSON-shaped values below. Numbers are integers (status codes
  and millisecond timeouts are the only numbers the SDK computes with). An object is the
  list of its own properties; a property is looked up by its first binding.
\<close>

datatype jsval =
    JUndefined
  | JNull
  | JBool bool
  | JNum int
  | JStr string
  | JArr "jsval list"
  | JObj "(string \<times> jsval) list"

text \<open>ToBoolean, as used by \<^verbatim>\<open>if (x)\<close>, \<^verbatim>\<open>x || y\<close> and \<^verbatim>\<open>x ? a : b\<close>.\<close>

fun truthy :: "jsval \<Rightarrow> bool" where
  "truthy JUndefined = False"
| "truthy JNull = False"
| "truthy (JBool b) = b"
| "truthy (JNum n) = (n \<noteq> 0)"
| "truthy (JStr s) = (s \<noteq> [])"
| "truthy (JArr xs) = True"
| "truthy (JObj kvs) = True"

text \<open>\<^verbatim>\<open>a || b\<close>: the left operand when it is truthy, the right one otherwise.\<close>

definition js_or :: "jsval \<Rightarrow> jsval \<Rightarrow> jsval" where
  "js_or a b = (if truthy a then a else b)"

text \<open>
  Property read \<^verbatim>\<open>v.k\<close> for the keys the SDK reads (\<^verbatim>\<open>message\<close>, \<^verbatim>\<open>error\<close>,
  \<^verbatim>\<open>details\<close>, \<^verbatim>\<open>code\<close>): reading from \<^verbatim>\<open>null\<close> or \<^verbatim>\<open>undefined\<close> throws a
  TypeError (\<open>None\<close>); an object yields its own property or \<^verbatim>\<open>undefined\<close>; strings,
  numbers, booleans and arrays have no property of these names.
\<close>

fun get_prop :: "jsval \<Rightarrow> string \<Rightarrow> jsval option" where
  "get_prop JUndefined k = None"
| "get_prop JNull k = None"
| "get_prop (JObj kvs) k = Some (case map_of kvs k of Some v \<Rightarrow> v | None \<Rightarrow> JUndefined)"
| "get_prop v k = Some JUndefined"

text \<open>\<^verbatim>\<open>xs.join(sep)\<close> on an array of strings.\<close>

fun join :: "string \<Rightarrow> string list \<Rightarrow> string" where
  "join sep [] = []"
| "join sep [x] = x"
| "join sep (x # y # ys) = x @ sep @ join sep (y # ys)"

text \<open>All of a list of optional strings, or \<open>None\<close> when one of them is missing.\<close>

fun sequence :: "string option list \<Rightarrow> string list option" where
  "sequence [] = Some []"
| "sequence (None # xs) = None"
| "sequence (Some s # xs) = (case sequence xs of None \<Rightarrow> None | Some ss \<Rightarrow> Some (s # ss))"

text \<open>
  ToString, which the \<^verbatim>\<open>Error\<close> constructor applies to its message. The rendering of
  a number is the platform's (first argument). An array is the comma-joined ToString of
  its elements, with \<^verbatim>\<open>null\<close> and \<^verbatim>\<open>undefined\<close> elements rendered empty. A plain
  object renders as \<^verbatim>\<open>[object Object]\<close> through \<^verbatim>\<open>Object.prototype.toString\<close>, unless
  it has an own property \<^verbatim>\<open>toString\<close>: that value is data, not callable, and the
  conversion throws a TypeError (\<open>None\<close>).
\<close>

fun ToString :: "(int \<Rightarrow> string) \<Rightarrow> jsval \<Rightarrow> string option" where
  "ToString nts JUndefined = Some ''undefined''"
| "ToString nts JNull = Some ''null''"
| "ToString nts (JBool b) = Some (if b then ''true'' else ''false'')"
| "ToString nts (JNum n) = Some (nts n)"
| "ToString nts (JStr s) = Some s"
| "ToString nts (JArr xs) =
     map_option (join '','')
       (sequence (map (\<lambda>x. if x = JUndefined \<or> x = JNull then Some [] else ToString nts x) xs))"
| "ToString nts (JObj kvs) =
     (if map_of kvs ''toString'' \<noteq> None then None else Some ''[object Object]'')"

section \<open>The platform\<close>

text \<open>
  The SDK consumes a JSON decoder and encoder and the number formatting of template
  literals from its JavaScript environment. They are parameters of the model:
  \<open>JSON_parse\<close> returns \<open>None\<close> where \<^verbatim>\<open>JSON.parse\<close> throws a SyntaxError.
\<close>

record platform =
  JSON_parse :: "string \<Rightarrow> jsval option"
  JSON_stringify :: "jsval \<Rightarrow> string"
  Number_toString :: "int \<Rightarrow> string"

section \<open>The error taxonomy\<close>

text \<open>
  \<^verbatim>\<open>requestInfo\<close>: the diagnostic context built by \<^verbatim>\<open>request\<close> and \<^verbatim>\<open>uploadAsset\<close>.
\<close>

record request_info =
  ri_method :: string
  ri_url :: string
  ri_params :: jsval
  ri_data :: jsval
  ri_timeout :: int

text \<open>
  The classes of the hierarchy under \<^verbatim>\<open>ElmapiError\<close>. \<^verbatim>\<open>this.name\<close> is the name of the
  constructing class, and \<^verbatim>\<open>e instanceof C\<close> holds for a leaf class \<open>C\<close> exactly when
  \<open>C\<close> constructed \<open>e\<close>.
\<close>

datatype error_class =
    ElmapiError
  | AuthenticationError
  | AuthorizationError
  | NotFoundError
  | ValidationError
  | RateLimitError
  | ServerError
  | NetworkError
  | TimeoutError

text \<open>
  An instance. A property the constructor leaves unset reads as \<^verbatim>\<open>undefined\<close>:
  \<open>None\<close> for \<open>statusCode\<close> and \<open>requestInfo\<close>, \<open>JUndefined\<close> for \<open>code\<close> and
  \<open>details\<close>.
\<close>

record elmapi_error =
  name :: error_class
  message :: string
  statusCode :: "int option"
  code :: jsval
  details :: jsval
  requestInfo :: "request_info option"

text \<open>What a \<^verbatim>\<open>throw\<close> of the SDK can carry: one of its own errors, or a TypeError of
  the JavaScript runtime.\<close>

datatype thrown = Elmapi elmapi_error | TypeError

text \<open>
  \<^verbatim>\<open>new C(...)\<close> for the base class: \<^verbatim>\<open>super(message)\<close> is the \<^verbatim>\<open>Error\<close> constructor,
  which stores ToString of a message that is not \<^verbatim>\<open>undefined\<close> and leaves the inherited
  empty message otherwise. The first argument is the class that is being constructed.
\<close>

definition new_ElmapiError ::
  "platform \<Rightarrow> error_class \<Rightarrow> jsval \<Rightarrow> int option \<Rightarrow> jsval \<Rightarrow> jsval \<Rightarrow> request_info option
     \<Rightarrow> thrown + elmapi_error" where
  "new_ElmapiError P cls msg sc cd dt ri =
     (case (if msg = JUndefined then Some [] else ToString (Number_toString P) msg) of
        None \<Rightarrow> Inl TypeError
      | Some m \<Rightarrow>
          Inr \<lparr> name = cls, message = m, statusCode = sc, code = cd, details = dt,
                requestInfo = ri \<rparr>)"

text \<open>A default parameter value applies when the argument is \<^verbatim>\<open>undefined\<close>.\<close>

definition default_to :: "string \<Rightarrow> jsval \<Rightarrow> jsval" where
  "default_to d v = (if v = JUndefined then JStr d else v)"

definition new_AuthenticationError ::
  "platform \<Rightarrow> jsval \<Rightarrow> request_info option \<Rightarrow> thrown + elmapi_error" where
  "new_AuthenticationError P msg ri =
     new_ElmapiError P AuthenticationError
       (default_to ''Authentication failed. Please check your API token.'' msg)
       (Some 401) (JStr ''AUTHENTICATION_ERROR'') JUndefined ri"

definition new_AuthorizationError ::
  "platform \<Rightarrow> jsval \<Rightarrow> request_info option \<Rightarrow> thrown + elmapi_error" where
  "new_AuthorizationError P msg ri =
     new_ElmapiError P AuthorizationError
       (default_to ''You do not have permission to perform this action.'' msg)
       (Some 403) (JStr ''AUTHORIZATION_ERROR'') JUndefined ri"

definition new_NotFoundError ::
  "platform \<Rightarrow> string \<Rightarrow> request_info option \<Rightarrow> thrown + elmapi_error" where
  "new_NotFoundError P resource ri =
     new_ElmapiError P NotFoundError (JStr (resource @ '' not found.''))
       (Some 404) (JStr ''NOT_FOUND'') JUndefined ri"

definition new_ValidationError ::
  "platform \<Rightarrow> jsval \<Rightarrow> jsval \<Rightarrow> request_info option \<Rightarrow> thrown + elmapi_error" where
  "new_ValidationError P msg dt ri =
     new_ElmapiError P ValidationError msg (Some 422) (JStr ''VALIDATION_ERROR'') dt ri"

definition new_RateLimitError ::
  "platform \<Rightarrow> jsval \<Rightarrow> request_info option \<Rightarrow> thrown + elmapi_error" where
  "new_RateLimitError P msg ri =
     new_ElmapiError P RateLimitError
       (default_to ''Rate limit exceeded. Please try again later.'' msg)
       (Some 429) (JStr ''RATE_LIMIT_ERROR'') JUndefined ri"

definition new_ServerError ::
  "platform \<Rightarrow> jsval \<Rightarrow> request_info option \<Rightarrow> thrown + elmapi_error" where
  "new_ServerError P msg ri =
     new_ElmapiError P ServerError
       (default_to ''Server error occurred. Please try again later.'' msg)
       (Some 500) (JStr ''SERVER_ERROR'') JUndefined ri"

definition new_NetworkError ::
  "platform \<Rightarrow> jsval \<Rightarrow> request_info option \<Rightarrow> thrown + elmapi_error" where
  "new_NetworkError P msg ri =
     new_ElmapiError P NetworkError
       (default_to ''Network error occurred. Please check your connection.'' msg)
       None (JStr ''NETWORK_ERROR'') JUndefined ri"

definition new_TimeoutError ::
  "platform \<Rightarrow> int \<Rightarrow> request_info option \<Rightarrow> thrown + elmapi_error" where
  "new_TimeoutError P t ri =
     new_ElmapiError P TimeoutError
       (JStr (''Request timed out after '' @ Number_toString P t @ ''ms.''))
       None (JStr ''TIMEOUT_ERROR'') JUndefined ri"

section \<open>The error classifier\<close>

text \<open>
  What the transport rejects with: an \<^verbatim>\<open>Error\<close> whose \<^verbatim>\<open>response\<close> is present when
  the server answered, and whose \<^verbatim>\<open>code\<close> and \<^verbatim>\<open>timeout\<close> describe a failure of
  the connection.
\<close>

record http_response =
  resp_status :: int
  resp_body :: jsval
  resp_text :: jsval

record transport_error =
  err_code :: jsval
  err_timeout :: jsval
  err_message :: string
  err_response :: "http_response option"

text \<open>
  The first half of \<^verbatim>\<open>createApiError\<close>: \<^verbatim>\<open>error.response?.body || error.response?.text\<close>,
  then the structured data recovered from it. A string is decoded; when the decoder
  throws, the \<^verbatim>\<open>catch\<close> wraps the raw text as the message.
\<close>

definition responseBody_of :: "transport_error \<Rightarrow> jsval" where
  "responseBody_of error =
     js_or (case err_response error of None \<Rightarrow> JUndefined | Some r \<Rightarrow> resp_body r)
           (case err_response error of None \<Rightarrow> JUndefined | Some r \<Rightarrow> resp_text r)"

definition errorData_of :: "platform \<Rightarrow> transport_error \<Rightarrow> jsval" where
  "errorData_of P error =
     (let responseBody = responseBody_of error in
      if truthy responseBody then
        (case responseBody of
           JStr s \<Rightarrow>
             (case JSON_parse P s of
                Some v \<Rightarrow> v
              | None \<Rightarrow> JObj [(''message'', responseBody)])
         | _ \<Rightarrow> responseBody)
      else JObj [])"

text \<open>
  \<^verbatim>\<open>createApiError(error, requestInfo)\<close>. The field names of the error record are
  taken, so the parameter \<^verbatim>\<open>requestInfo\<close> is \<open>info\<close> here and the locals
  \<^verbatim>\<open>statusCode\<close>, \<^verbatim>\<open>message\<close>, \<^verbatim>\<open>details\<close>, \<^verbatim>\<open>code\<close> are \<open>status\<close>, \<open>msg\<close>, \<open>dt\<close>,
  \<open>cd\<close>. The property reads on \<open>errorData\<close> come before the \<^verbatim>\<open>switch\<close>; they throw
  when \<open>errorData\<close> is \<^verbatim>\<open>null\<close>. The result is \<open>Inr\<close> of the error the function
  returns, or \<open>Inl\<close> of what it throws instead of returning.
\<close>

definition createApiError ::
  "platform \<Rightarrow> transport_error \<Rightarrow> request_info \<Rightarrow> thrown + elmapi_error" where
  "createApiError P error info =
     (let status = map_option resp_status (err_response error);
          errorData = errorData_of P error
      in case (get_prop errorData ''message'', get_prop errorData ''error'',
               get_prop errorData ''details'', get_prop errorData ''code'') of
           (Some m, Some e, Some dt, Some cd) \<Rightarrow>
             (let msg =
                    js_or (js_or (js_or m e) (JStr (err_message error)))
                          (JStr ''An unknown error occurred'')
              in if status = Some 401 then
                   new_AuthenticationError P msg (Some info)
                 else if status = Some 403 then
                   new_AuthorizationError P msg (Some info)
                 else if status = Some 404 then
                   new_NotFoundError P ''Resource'' (Some info)
                 else if status = Some 422 then
                   new_ValidationError P msg dt (Some info)
                 else if status = Some 429 then
                   new_RateLimitError P msg (Some info)
                 else if status = Some 500 \<or> status = Some 502
                         \<or> status = Some 503 \<or> status = Some 504 then
                   new_ServerError P msg (Some info)
                 else
                   new_ElmapiError P ElmapiError msg status cd dt
                     (Some info))
         | _ \<Rightarrow> Inl TypeError)"

text \<open>
  \<^verbatim>\<open>createNetworkError(error, requestInfo)\<close>, for a failure without a response.
\<close>

definition createNetworkError ::
  "platform \<Rightarrow> transport_error \<Rightarrow> request_info \<Rightarrow> thrown + elmapi_error" where
  "createNetworkError P error info =
     (if err_code error = JStr ''ECONNABORTED'' \<or> truthy (err_timeout error) then
        new_TimeoutError P
          (if ri_timeout info \<noteq> 0 then ri_timeout info else 30000)
          (Some info)
      else if err_code error = JStr ''ENOTFOUND'' \<or> err_code error = JStr ''ECONNREFUSED'' then
        new_NetworkError P
          (JStr ''Unable to connect to the server. Please check your internet connection and the API URL.'')
          (Some info)
      else
        new_NetworkError P
          (js_or (JStr (err_message error)) (JStr ''Network error occurred''))
          (Some info))"

section \<open>The client\<close>

text \<open>
  \<^verbatim>\<open>ApiConfig\<close>, the argument of the constructor (\<^verbatim>\<open>accessToken\<close> and \<^verbatim>\<open>timeout\<close>
  are optional), and the fields of an \<^verbatim>\<open>ApiClient\<close> instance. The configured timeout is
  a JavaScript \<^verbatim>\<open>number\<close>: a number of milliseconds or \<^verbatim>\<open>NaN\<close>, which is falsy as
  zero is. The timeout the constructor stores is the value of \<^verbatim>\<open>config.timeout || 30000\<close>,
  which is neither: the field of the client is an integer.
\<close>

datatype jsnum = Number int | NaN

record api_config =
  cfg_basePath :: string
  cfg_accessToken :: "string option"
  cfg_projectId :: string
  cfg_timeout :: "jsnum option"

record api_client =
  basePath :: string
  accessToken :: string
  projectId :: string
  timeout :: int

text \<open>
  \<^verbatim>\<open>s.replace(/\/+$/, '')\<close>. The pattern matches at a position when the text from
  there to the end of the input is one or more slashes: \<^verbatim>\<open>\/+\<close> takes the whole run
  and \<^verbatim>\<open>$\<close> (no \<^verbatim>\<open>m\<close> flag) then demands the end of the input. The replacement is
  done at the leftmost position that matches, scanning from the left, and the match
  reaches the end of the string.
\<close>

definition slashes_to_end :: "string \<Rightarrow> bool" where
  "slashes_to_end s = (s \<noteq> [] \<and> list_all (\<lambda>c. c = CHR ''/'') s)"

fun replace_trailing_slashes :: "string \<Rightarrow> string" where
  "replace_trailing_slashes [] = []"
| "replace_trailing_slashes (c # cs) =
     (if slashes_to_end (c # cs) then [] else c # replace_trailing_slashes cs)"

text \<open>
  \<^verbatim>\<open>x || 30000\<close> on an optional number: zero and \<^verbatim>\<open>NaN\<close> are falsy, as \<^verbatim>\<open>undefined\<close>
  is.
\<close>

definition or_30000 :: "jsnum option \<Rightarrow> int" where
  "or_30000 t =
     (case t of
        None \<Rightarrow> 30000
      | Some NaN \<Rightarrow> 30000
      | Some (Number n) \<Rightarrow> if n \<noteq> 0 then n else 30000)"

text \<open>The constructor of \<^verbatim>\<open>ApiClient\<close>.\<close>

definition new_ApiClient :: "api_config \<Rightarrow> api_client" where
  "new_ApiClient config =
     \<lparr> basePath = replace_trailing_slashes (cfg_basePath config),
       accessToken = (case cfg_accessToken config of None \<Rightarrow> [] | Some t \<Rightarrow> t),
       projectId = cfg_projectId config,
       timeout = or_30000 (cfg_timeout config) \<rparr>"

section \<open>The transport\<close>

text \<open>
  A \<^verbatim>\<open>superagent\<close> request under construction: each builder call of the SDK records its
  argument. \<open>req_headers\<close> holds the \<^verbatim>\<open>set\<close> calls in order, \<open>req_query\<close> the arguments
  of the \<^verbatim>\<open>query\<close> calls, \<open>req_body\<close> the argument of \<^verbatim>\<open>send\<close>, \<open>req_timeout\<close> that of
  \<^verbatim>\<open>timeout\<close>; \<open>req_attachments\<close> and \<open>req_fields\<close> are the multipart parts.
\<close>

record js_file =
  file_name :: jsval
  file_content :: string

record http_request =
  req_method :: string
  req_url :: string
  req_headers :: "(string \<times> string) list"
  req_query :: "jsval list"
  req_body :: "jsval option"
  req_timeout :: "int option"
  req_attachments :: "(string \<times> js_file) list"
  req_fields :: "(string \<times> string) list"

definition superagent :: "string \<Rightarrow> string \<Rightarrow> http_request" where
  "superagent method url =
     \<lparr> req_method = method, req_url = url, req_headers = [], req_query = [],
       req_body = None, req_timeout = None, req_attachments = [], req_fields = [] \<rparr>"

definition set_header :: "string \<Rightarrow> string \<Rightarrow> http_request \<Rightarrow> http_request" where
  "set_header field val r = r\<lparr> req_headers := req_headers r @ [(field, val)] \<rparr>"

definition query :: "jsval \<Rightarrow> http_request \<Rightarrow> http_request" where
  "query params r = r\<lparr> req_query := req_query r @ [params] \<rparr>"

definition send :: "jsval \<Rightarrow> http_request \<Rightarrow> http_request" where
  "send data r = r\<lparr> req_body := Some data \<rparr>"

definition set_timeout :: "int \<Rightarrow> http_request \<Rightarrow> http_request" where
  "set_timeout ms r = r\<lparr> req_timeout := Some ms \<rparr>"

definition attach :: "string \<Rightarrow> js_file \<Rightarrow> http_request \<Rightarrow> http_request" where
  "attach field file r = r\<lparr> req_attachments := req_attachments r @ [(field, file)] \<rparr>"

definition field :: "string \<Rightarrow> string \<Rightarrow> http_request \<Rightarrow> http_request" where
  "field fname val r = r\<lparr> req_fields := req_fields r @ [(fname, val)] \<rparr>"

text \<open>The value of a header of a request: the last \<^verbatim>\<open>set\<close> of that field.\<close>

definition header :: "http_request \<Rightarrow> string \<Rightarrow> string option" where
  "header r k = map_of (rev (req_headers r)) k"

text \<open>The value of a query parameter: the first query object that has the key.\<close>

fun query_param :: "jsval list \<Rightarrow> string \<Rightarrow> jsval option" where
  "query_param [] k = None"
| "query_param (JObj kvs # qs) k =
     (case map_of kvs k of Some v \<Rightarrow> Some v | None \<Rightarrow> query_param qs k)"
| "query_param (q # qs) k = query_param qs k"

text \<open>
  How an awaited request settles: with the response, or rejected with the transport's
  error. The network is a parameter \<open>T\<close> of every operation: it answers the request,
  given the requests sent before it.
\<close>

datatype settled = Fulfilled http_response | Rejected transport_error

type_synonym transport = "http_request list \<Rightarrow> http_request \<Rightarrow> settled"

text \<open>
  The state the methods run in: the client instance (\<^verbatim>\<open>this\<close>) and the requests
  handed to the transport so far.
\<close>

record sdk_state =
  client :: api_client
  sent :: "http_request list"

text \<open>\<^verbatim>\<open>throw new C(...)\<close>: the constructed error, or what its construction threw.\<close>

definition throw :: "thrown + elmapi_error \<Rightarrow> thrown" where
  "throw r = (case r of Inl x \<Rightarrow> x | Inr e \<Rightarrow> Elmapi e)"

text \<open>
  The \<^verbatim>\<open>try { const response = await request; return response.body; } catch (error) {...}\<close>
  block that ends both \<^verbatim>\<open>request\<close> and \<^verbatim>\<open>uploadAsset\<close>.
\<close>

definition await_request ::
  "platform \<Rightarrow> transport \<Rightarrow> http_request \<Rightarrow> request_info \<Rightarrow> sdk_state
     \<Rightarrow> (thrown + jsval) \<times> sdk_state" where
  "await_request P T r info s =
     (let s' = s\<lparr> sent := sent s @ [r] \<rparr> in
      case T (sent s) r of
        Fulfilled response \<Rightarrow> (Inr (resp_body response), s')
      | Rejected error \<Rightarrow>
          (if err_response error \<noteq> None then
             (Inl (throw (createApiError P error info)), s')
           else
             (Inl (throw (createNetworkError P error info)), s')))"

section \<open>The request executor\<close>

text \<open>
  \<^verbatim>\<open>request(method, path, params = {}, data)\<close>: \<open>request_of\<close> is the request the method
  builds and \<open>request_info_of\<close> its \<^verbatim>\<open>requestInfo\<close>.
\<close>

definition request_of :: "api_client \<Rightarrow> string \<Rightarrow> string \<Rightarrow> jsval \<Rightarrow> jsval \<Rightarrow> http_request" where
  "request_of c method path params0 data =
     (let params = (if params0 = JUndefined then JObj [] else params0);
          url = basePath c @ path;
          r0 = superagent method url;
          r1 = (if accessToken c \<noteq> [] then
                  set_header ''Authorization'' (''Bearer '' @ accessToken c) r0
                else r0);
          r2 = set_header ''project-id'' (projectId c) r1;
          r3 = set_header ''Accept'' ''application/json'' r2;
          r4 = (if truthy params then query params r3 else r3);
          r5 = (if truthy data then send data r4 else r4)
      in set_timeout (timeout c) r5)"

definition request_info_of :: "api_client \<Rightarrow> string \<Rightarrow> string \<Rightarrow> jsval \<Rightarrow> jsval \<Rightarrow> request_info" where
  "request_info_of c method path params0 data =
     \<lparr> ri_method = method,
       ri_url = basePath c @ path,
       ri_params = (if params0 = JUndefined then JObj [] else params0),
       ri_data = data,
       ri_timeout = timeout c \<rparr>"

definition request ::
  "platform \<Rightarrow> transport \<Rightarrow> string \<Rightarrow> string \<Rightarrow> jsval \<Rightarrow> jsval \<Rightarrow> sdk_state
     \<Rightarrow> (thrown + jsval) \<times> sdk_state" where
  "request P T method path params0 data s =
     await_request P T (request_of (client s) method path params0 data)
       (request_info_of (client s) method path params0 data) s"

text \<open>
  \<^verbatim>\<open>try { return await this.request(...) } catch (error) { if (error instanceof
  NotFoundError) throw new NotFoundError(label, error.requestInfo); throw error; }\<close>,
  the wrapper of the four lookups.
\<close>

definition relabel_not_found :: "platform \<Rightarrow> string \<Rightarrow> thrown + jsval \<Rightarrow> thrown + jsval" where
  "relabel_not_found P label res =
     (case res of
        Inr v \<Rightarrow> Inr v
      | Inl TypeError \<Rightarrow> Inl TypeError
      | Inl (Elmapi error) \<Rightarrow>
          (if name error = NotFoundError then
             Inl (throw (new_NotFoundError P label (requestInfo error)))
           else Inl (Elmapi error)))"

section \<open>The operations\<close>

text \<open>A name between single quotes, as the labels of the lookups write it.\<close>

definition quoted :: "string \<Rightarrow> string" where
  "quoted s = CHR 0x27 # s @ [CHR 0x27]"

definition getProject ::
  "platform \<Rightarrow> transport \<Rightarrow> jsval \<Rightarrow> sdk_state \<Rightarrow> (thrown + jsval) \<times> sdk_state" where
  "getProject P T params s = request P T ''GET'' ''/'' params JUndefined s"

definition getCollections ::
  "platform \<Rightarrow> transport \<Rightarrow> sdk_state \<Rightarrow> (thrown + jsval) \<times> sdk_state" where
  "getCollections P T s = request P T ''GET'' ''/collections'' JUndefined JUndefined s"

definition getCollection ::
  "platform \<Rightarrow> transport \<Rightarrow> string \<Rightarrow> sdk_state \<Rightarrow> (thrown + jsval) \<times> sdk_state" where
  "getCollection P T collectionSlug s =
     (case request P T ''GET'' (''/collections/'' @ collectionSlug) JUndefined JUndefined s of
        (res, s') \<Rightarrow> (relabel_not_found P (''Collection '' @ quoted collectionSlug) res, s'))"

definition getEntries ::
  "platform \<Rightarrow> transport \<Rightarrow> string \<Rightarrow> jsval \<Rightarrow> sdk_state \<Rightarrow> (thrown + jsval) \<times> sdk_state" where
  "getEntries P T collectionSlug params s =
     request P T ''GET'' (''/'' @ collectionSlug) params JUndefined s"

definition getEntry ::
  "platform \<Rightarrow> transport \<Rightarrow> string \<Rightarrow> string \<Rightarrow> sdk_state \<Rightarrow> (thrown + jsval) \<times> sdk_state" where
  "getEntry P T collectionSlug uuid s =
     (case request P T ''GET'' (''/'' @ collectionSlug @ ''/'' @ uuid) JUndefined JUndefined s of
        (res, s') \<Rightarrow>
          (relabel_not_found P
             (''Entry '' @ quoted uuid @ '' in collection '' @ quoted collectionSlug) res, s'))"

definition createEntry ::
  "platform \<Rightarrow> transport \<Rightarrow> string \<Rightarrow> jsval \<Rightarrow> sdk_state \<Rightarrow> (thrown + jsval) \<times> sdk_state" where
  "createEntry P T collectionSlug data s =
     request P T ''POST'' (''/'' @ collectionSlug) (JObj []) data s"

definition updateEntry ::
  "platform \<Rightarrow> transport \<Rightarrow> string \<Rightarrow> string \<Rightarrow> jsval \<Rightarrow> sdk_state
     \<Rightarrow> (thrown + jsval) \<times> sdk_state" where
  "updateEntry P T collectionSlug uuid data s =
     request P T ''PUT'' (''/'' @ collectionSlug @ ''/'' @ uuid) (JObj []) data s"

definition patchEntry ::
  "platform \<Rightarrow> transport \<Rightarrow> string \<Rightarrow> string \<Rightarrow> jsval \<Rightarrow> sdk_state
     \<Rightarrow> (thrown + jsval) \<times> sdk_state" where
  "patchEntry P T collectionSlug uuid data s =
     request P T ''PATCH'' (''/'' @ collectionSlug @ ''/'' @ uuid) (JObj []) data s"

text \<open>\<^verbatim>\<open>force ? { force } : {}\<close>, the query parameters of the two deletions.\<close>

definition force_params :: "jsval \<Rightarrow> jsval" where
  "force_params force = (if truthy force then JObj [(''force'', force)] else JObj [])"

definition deleteEntry ::
  "platform \<Rightarrow> transport \<Rightarrow> string \<Rightarrow> string \<Rightarrow> jsval \<Rightarrow> sdk_state
     \<Rightarrow> (thrown + jsval) \<times> sdk_state" where
  "deleteEntry P T collectionSlug uuid force s =
     request P T ''DELETE'' (''/'' @ collectionSlug @ ''/'' @ uuid) (force_params force)
       JUndefined s"

definition getAssets ::
  "platform \<Rightarrow> transport \<Rightarrow> jsval \<Rightarrow> sdk_state \<Rightarrow> (thrown + jsval) \<times> sdk_state" where
  "getAssets P T params s = request P T ''GET'' ''/files'' params JUndefined s"

definition getAsset ::
  "platform \<Rightarrow> transport \<Rightarrow> string \<Rightarrow> sdk_state \<Rightarrow> (thrown + jsval) \<times> sdk_state" where
  "getAsset P T identifier s =
     (case request P T ''GET'' (''/files/'' @ identifier) JUndefined JUndefined s of
        (res, s') \<Rightarrow> (relabel_not_found P (''Asset '' @ quoted identifier) res, s'))"

definition getAssetByFilename ::
  "platform \<Rightarrow> transport \<Rightarrow> string \<Rightarrow> sdk_state \<Rightarrow> (thrown + jsval) \<times> sdk_state" where
  "getAssetByFilename P T filename s =
     (case request P T ''GET'' (''/files/name/'' @ filename) JUndefined JUndefined s of
        (res, s') \<Rightarrow>
          (relabel_not_found P (''Asset with filename '' @ quoted filename) res, s'))"

text \<open>
  \<^verbatim>\<open>uploadAsset(file, metadata)\<close> builds its own request: \<open>upload_request_of\<close> is that
  request and \<open>upload_info_of\<close> its \<^verbatim>\<open>requestInfo\<close>.
\<close>

definition upload_request_of :: "platform \<Rightarrow> api_client \<Rightarrow> js_file \<Rightarrow> jsval \<Rightarrow> http_request" where
  "upload_request_of P c file metadata =
     (let url = basePath c @ ''/files'';
          r0 = superagent ''POST'' url;
          r1 = (if accessToken c \<noteq> [] then
                  set_header ''Authorization'' (''Bearer '' @ accessToken c) r0
                else r0);
          r2 = set_header ''project-id'' (projectId c) r1;
          r3 = attach ''file'' file r2
      in if truthy metadata then field ''metadata'' (JSON_stringify P metadata) r3 else r3)"

definition upload_info_of :: "api_client \<Rightarrow> js_file \<Rightarrow> jsval \<Rightarrow> request_info" where
  "upload_info_of c file metadata =
     \<lparr> ri_method = ''POST'',
       ri_url = basePath c @ ''/files'',
       ri_params = JObj [],
       ri_data = JObj [(''file'', js_or (file_name file) (JStr ''file'')),
                       (''metadata'', metadata)],
       ri_timeout = timeout c \<rparr>"

definition uploadAsset ::
  "platform \<Rightarrow> transport \<Rightarrow> js_file \<Rightarrow> jsval \<Rightarrow> sdk_state \<Rightarrow> (thrown + jsval) \<times> sdk_state" where
  "uploadAsset P T file metadata s =
     await_request P T (upload_request_of P (client s) file metadata)
       (upload_info_of (client s) file metadata) s"

definition deleteAsset ::
  "platform \<Rightarrow> transport \<Rightarrow> string \<Rightarrow> jsval \<Rightarrow> sdk_state \<Rightarrow> (thrown + jsval) \<times> sdk_state" where
  "deleteAsset P T identifier force s =
     request P T ''DELETE'' (''/files/'' @ identifier) (force_params force) JUndefined s"

text \<open>A call of one of the fourteen operations with its arguments, and its execution.\<close>

datatype operation =
    GetProject jsval
  | GetCollections
  | GetCollection string
  | GetEntries string jsval
  | GetEntry string string
  | CreateEntry string jsval
  | UpdateEntry string string jsval
  | PatchEntry string string jsval
  | DeleteEntry string string jsval
  | GetAssets jsval
  | GetAsset string
  | GetAssetByFilename string
  | UploadAsset js_file jsval
  | DeleteAsset string jsval

fun perform ::
  "platform \<Rightarrow> transport \<Rightarrow> operation \<Rightarrow> sdk_state \<Rightarrow> (thrown + jsval) \<times> sdk_state" where
  "perform P T (GetProject params) s = getProject P T params s"
| "perform P T GetCollections s = getCollections P T s"
| "perform P T (GetCollection slug) s = getCollection P T slug s"
| "perform P T (GetEntries slug params) s = getEntries P T slug params s"
| "perform P T (GetEntry slug uuid) s = getEntry P T slug uuid s"
| "perform P T (CreateEntry slug data) s = createEntry P T slug data s"
| "perform P T (UpdateEntry slug uuid data) s = updateEntry P T slug uuid data s"
| "perform P T (PatchEntry slug uuid data) s = patchEntry P T slug uuid data s"
| "perform P T (DeleteEntry slug uuid force) s = deleteEntry P T slug uuid force s"
| "perform P T (GetAssets params) s = getAssets P T params s"
| "perform P T (GetAsset identifier) s = getAsset P T identifier s"
| "perform P T (GetAssetByFilename filename) s = getAssetByFilename P T filename s"
| "perform P T (UploadAsset file metadata) s = uploadAsset P T file metadata s"
| "perform P T (DeleteAsset identifier force) s = deleteAsset P T identifier force s"

text \<open>A sequence of calls, each in the state the one before it left.\<close>

fun perform_all :: "platform \<Rightarrow> transport \<Rightarrow> operation list \<Rightarrow> sdk_state \<Rightarrow> sdk_state" where
  "perform_all P T [] s = s"
| "perform_all P T (op # ops) s = perform_all P T ops (snd (perform P T op s))"

section \<open>Configuration validation and the factory\<close>

text \<open>
  \<^verbatim>\<open>validateConfiguration()\<close>: \<open>Inr ()\<close> when it returns, \<open>Inl\<close> of what it throws.
\<close>

definition validateConfiguration :: "platform \<Rightarrow> api_client \<Rightarrow> thrown + unit" where
  "validateConfiguration P c =
     (let errors0 = (if basePath c = [] then [''Base path is required''] else []);
          errors = (if projectId c = [] then errors0 @ [''Project ID is required''] else errors0)
      in if length errors > 0 then
           Inl (throw (new_ValidationError P
                  (JStr (''Invalid client configuration: '' @ join '', '' errors))
                  (JObj [(''errors'', JArr (map JStr errors))]) None))
         else Inr ())"

text \<open>
  \<^verbatim>\<open>createClient(baseUrl, apiToken, projectId, config = {})\<close>; of \<^verbatim>\<open>config\<close> only
  \<^verbatim>\<open>config.timeout\<close> is read, which is the last argument here.
\<close>

definition createClient ::
  "platform \<Rightarrow> string \<Rightarrow> string \<Rightarrow> string \<Rightarrow> jsnum option \<Rightarrow> thrown + api_client" where
  "createClient P baseUrl apiToken pid config_timeout =
     (let c = new_ApiClient
                \<lparr> cfg_basePath = baseUrl,
                  cfg_accessToken = Some apiToken,
                  cfg_projectId = pid,
                  cfg_timeout = Some (Number (or_30000 config_timeout)) \<rparr>
      in case validateConfiguration P c of
           Inr u \<Rightarrow> Inr c
         | Inl (Elmapi error) \<Rightarrow>
             (if name error = ValidationError then Inl (Elmapi error)
              else Inl (throw (new_ValidationError P
                          (JStr ''Failed to validate client configuration'') JUndefined None)))
         | Inl TypeError \<Rightarrow>
             Inl (throw (new_ValidationError P
                    (JStr ''Failed to validate client configuration'') JUndefined None)))"

section \<open>The specification's words, and a platform for closed examples\<close>

text \<open>
  The specification describes the stored base path as the configured one with its
  trailing slashes stripped; this is that description, to be compared with the regular
  expression replacement of the constructor.
\<close>

definition strip_trailing_slashes_spec :: "string \<Rightarrow> string" where
  "strip_trailing_slashes_spec s = rev (dropWhile (\<lambda>c. c = CHR ''/'') (rev s))"

text \<open>
  The theorems below hold for every platform. Closed examples are evaluated on this one:
  its decoder knows the three JSON keywords and rejects every other text (the examples
  only decode \<^verbatim>\<open>null\<close>), and it prints a number in decimal, as JavaScript prints an
  integer below \<open>10\<^sup>2\<^sup>1\<close>.
\<close>

definition keyword_parse :: "string \<Rightarrow> jsval option" where
  "keyword_parse s =
     (if s = ''null'' then Some JNull
      else if s = ''true'' then Some (JBool True)
      else if s = ''false'' then Some (JBool False)
      else None)"

fun decimal_nat :: "nat \<Rightarrow> string" where
  "decimal_nat n =
     (if n < 10 then [''0123456789'' ! n]
      else decimal_nat (n div 10) @ [''0123456789'' ! (n mod 10)])"

declare decimal_nat.simps [simp del]

definition decimal :: "int \<Rightarrow> string" where
  "decimal i = (if i < 0 then CHR ''-'' # decimal_nat (nat (- i)) else decimal_nat (nat i))"

definition example_platform :: platform where
  "example_platform =
     \<lparr> JSON_parse = keyword_parse, JSON_stringify = (\<lambda>v. []), Number_toString = decimal \<rparr>"

text \<open>
  The rejection of the transport for a response with an error status: no connection
  code, no timeout, the response attached.
\<close>

definition http_error :: "int \<Rightarrow> jsval \<Rightarrow> jsval \<Rightarrow> string \<Rightarrow> transport_error" where
  "http_error st body txt msg =
     \<lparr> err_code = JUndefined, err_timeout = JUndefined, err_message = msg,
       err_response = Some \<lparr> resp_status = st, resp_body = body, resp_text = txt \<rparr> \<rparr>"

text \<open>A network that settles every request the same way.\<close>

definition always :: "settled \<Rightarrow> transport" where
  "always outcome = (\<lambda>history r. outcome)"

text \<open>The client of the package's own smoke test, with a trailing slash added.\<close>

definition example_client :: api_client where
  "example_client =
     new_ApiClient
       \<lparr> cfg_basePath = ''https://example.com/api/'',
         cfg_accessToken = Some ''test-token'',
         cfg_projectId = ''550e8400-e29b-41d4-a716-446655440000'',
         cfg_timeout = None \<rparr>"

section \<open>Basic facts\<close>

lemma decimal_30000: "decimal 30000 = ''30000''"
  by (simp add: decimal_def decimal_nat.simps)

lemma example_client_eq:
  "example_client =
     \<lparr> basePath = ''https://example.com/api'', accessToken = ''test-token'',
       projectId = ''550e8400-e29b-41d4-a716-446655440000'', timeout = 30000 \<rparr>"
  by (simp add: example_client_def new_ApiClient_def or_30000_def slashes_to_end_def)

lemma new_ElmapiError_JStr:
  "new_ElmapiError P cls (JStr m) sc cd dt ri =
     Inr \<lparr> name = cls, message = m, statusCode = sc, code = cd, details = dt,
           requestInfo = ri \<rparr>"
  by (simp add: new_ElmapiError_def)

lemma get_prop_None: "get_prop v k = None \<longleftrightarrow> v = JNull \<or> v = JUndefined"
  by (cases v) simp_all

lemma or_30000_nonzero: "or_30000 t \<noteq> 0"
  by (simp add: or_30000_def split: option.splits jsnum.splits)

text \<open>
  The regular expression replacement of the constructor strips exactly the trailing
  slashes.
\<close>

lemma replace_trailing_slashes_spec:
  "replace_trailing_slashes s = strip_trailing_slashes_spec s"
  unfolding strip_trailing_slashes_spec_def
proof (induction s)
  case Nil
  then show ?case by simp
next
  case (Cons c cs)
  show ?case
  proof (cases "slashes_to_end (c # cs)")
    case True
    then have "\<forall>x \<in> set (rev (c # cs)). x = CHR ''/''"
      by (simp add: slashes_to_end_def list_all_iff)
    then have "dropWhile (\<lambda>c. c = CHR ''/'') (rev (c # cs)) = []"
      by (simp only: dropWhile_eq_Nil_conv)
    with True show ?thesis by simp
  next
    case False
    then have ex: "\<exists>x \<in> set (c # cs). x \<noteq> CHR ''/''"
      by (auto simp: slashes_to_end_def list_all_iff)
    show ?thesis
    proof (cases "\<exists>x \<in> set cs. x \<noteq> CHR ''/''")
      case True
      then obtain x where "x \<in> set (rev cs)" "\<not> x = CHR ''/''" by auto
      then have "dropWhile (\<lambda>c. c = CHR ''/'') (rev cs @ [c]) =
                 dropWhile (\<lambda>c. c = CHR ''/'') (rev cs) @ [c]"
        by (rule dropWhile_append1)
      with False Cons.IH show ?thesis by simp
    next
      case nosl: False
      with ex have c: "c \<noteq> CHR ''/''" by auto
      from nosl have "dropWhile (\<lambda>c. c = CHR ''/'') (rev cs) = []" by simp
      then have r: "replace_trailing_slashes cs = []" using Cons.IH by simp
      have "dropWhile (\<lambda>c. c = CHR ''/'') (rev cs @ [c]) =
            dropWhile (\<lambda>c. c = CHR ''/'') [c]"
        by (rule dropWhile_append2) (use nosl in auto)
      with c False r show ?thesis by simp
    qed
  qed
qed

subsection \<open>What a call sends, and what it leaves of the client\<close>

lemma sent_await_request:
  "sent (snd (await_request P T r info s)) = sent s @ [r]"
  by (simp add: await_request_def Let_def split: settled.splits)

lemma client_await_request:
  "client (snd (await_request P T r info s)) = client s"
  by (simp add: await_request_def Let_def split: settled.splits)

lemma sent_request:
  "sent (snd (request P T method path params data s)) =
     sent s @ [request_of (client s) method path params data]"
  by (simp add: request_def sent_await_request)

lemma client_request:
  "client (snd (request P T method path params data s)) = client s"
  by (simp add: request_def client_await_request)

lemma sent_uploadAsset:
  "sent (snd (uploadAsset P T file metadata s)) =
     sent s @ [upload_request_of P (client s) file metadata]"
  by (simp add: uploadAsset_def sent_await_request)

lemma client_uploadAsset:
  "client (snd (uploadAsset P T file metadata s)) = client s"
  by (simp add: uploadAsset_def client_await_request)

lemma headers_request_of:
  "req_headers (request_of c method path params data) =
     (if accessToken c \<noteq> [] then [(''Authorization'', ''Bearer '' @ accessToken c)] else [])
     @ [(''project-id'', projectId c), (''Accept'', ''application/json'')]"
  by (simp add: request_of_def Let_def superagent_def set_header_def query_def send_def
        set_timeout_def)

lemma headers_upload_request_of:
  "req_headers (upload_request_of P c file metadata) =
     (if accessToken c \<noteq> [] then [(''Authorization'', ''Bearer '' @ accessToken c)] else [])
     @ [(''project-id'', projectId c)]"
  by (simp add: upload_request_of_def Let_def superagent_def set_header_def attach_def
        field_def)

lemma timeout_request_of:
  "req_timeout (request_of c method path params data) = Some (timeout c)"
  by (simp add: request_of_def Let_def superagent_def set_header_def query_def send_def
        set_timeout_def)

lemma timeout_upload_request_of:
  "req_timeout (upload_request_of P c file metadata) = None"
  by (simp add: upload_request_of_def Let_def superagent_def set_header_def attach_def
        field_def)

text \<open>Every operation is one exchange: that of \<^verbatim>\<open>request\<close> or that of \<^verbatim>\<open>uploadAsset\<close>.\<close>

lemma snd_perform:
  "snd (perform P T op s) =
     (case op of
        UploadAsset file metadata \<Rightarrow> snd (uploadAsset P T file metadata s)
      | GetProject params \<Rightarrow> snd (request P T ''GET'' ''/'' params JUndefined s)
      | GetCollections \<Rightarrow> snd (request P T ''GET'' ''/collections'' JUndefined JUndefined s)
      | GetCollection slug \<Rightarrow>
          snd (request P T ''GET'' (''/collections/'' @ slug) JUndefined JUndefined s)
      | GetEntries slug params \<Rightarrow> snd (request P T ''GET'' (''/'' @ slug) params JUndefined s)
      | GetEntry slug uuid \<Rightarrow>
          snd (request P T ''GET'' (''/'' @ slug @ ''/'' @ uuid) JUndefined JUndefined s)
      | CreateEntry slug data \<Rightarrow> snd (request P T ''POST'' (''/'' @ slug) (JObj []) data s)
      | UpdateEntry slug uuid data \<Rightarrow>
          snd (request P T ''PUT'' (''/'' @ slug @ ''/'' @ uuid) (JObj []) data s)
      | PatchEntry slug uuid data \<Rightarrow>
          snd (request P T ''PATCH'' (''/'' @ slug @ ''/'' @ uuid) (JObj []) data s)
      | DeleteEntry slug uuid force \<Rightarrow>
          snd (request P T ''DELETE'' (''/'' @ slug @ ''/'' @ uuid) (force_params force)
                 JUndefined s)
      | GetAssets params \<Rightarrow> snd (request P T ''GET'' ''/files'' params JUndefined s)
      | GetAsset identifier \<Rightarrow>
          snd (request P T ''GET'' (''/files/'' @ identifier) JUndefined JUndefined s)
      | GetAssetByFilename filename \<Rightarrow>
          snd (request P T ''GET'' (''/files/name/'' @ filename) JUndefined JUndefined s)
      | DeleteAsset identifier force \<Rightarrow>
          snd (request P T ''DELETE'' (''/files/'' @ identifier) (force_params force)
                 JUndefined s))"
  by (cases op)
     (simp_all add: getProject_def getCollections_def getCollection_def getEntries_def
        getEntry_def createEntry_def updateEntry_def patchEntry_def deleteEntry_def
        getAssets_def getAsset_def getAssetByFilename_def deleteAsset_def
        split: prod.splits)

lemma client_perform: "client (snd (perform P T op s)) = client s"
  by (simp add: snd_perform client_request client_uploadAsset split: operation.splits)

lemma client_perform_all: "client (perform_all P T ops s) = client s"
  by (induction ops arbitrary: s) (simp_all add: client_perform)

section \<open>The error classifier\<close>

lemma js_or_fallback_defined: "js_or a (JStr (c # cs)) \<noteq> JUndefined"
  by (cases a) (simp_all add: js_or_def)

lemma errorData_of_status:
  "err_response error = Some r \<Longrightarrow>
   errorData_of P (error\<lparr> err_response := Some (r\<lparr> resp_status := st \<rparr>) \<rparr>) = errorData_of P error"
  by (simp add: errorData_of_def responseBody_of_def)

text \<open>
  Where the recovered data is not \<^verbatim>\<open>null\<close> and the message converts to a string, the
  classifier returns, and the status code alone selects the class: 401, 403, 404 (with
  the label \<^verbatim>\<open>Resource\<close>), 422 (with the details of the body), 429, the four server
  statuses (all stored as 500), and the base class with the status, code and details of
  the exchange for every other status.
\<close>

lemma createApiError_by_status:
  assumes nn: "errorData_of P error \<noteq> JNull" "errorData_of P error \<noteq> JUndefined"
    and msg: "msg = js_or (js_or (js_or (the (get_prop (errorData_of P error) ''message''))
                                         (the (get_prop (errorData_of P error) ''error'')))
                                  (JStr (err_message error)))
                           (JStr ''An unknown error occurred'')"
    and ts: "ToString (Number_toString P) msg = Some m"
    and st: "st = map_option resp_status (err_response error)"
    and dt: "dt = the (get_prop (errorData_of P error) ''details'')"
    and cd: "cd = the (get_prop (errorData_of P error) ''code'')"
  shows "createApiError P error info =
     Inr (if st = Some 401 then
            \<lparr> name = AuthenticationError, message = m, statusCode = Some 401,
              code = JStr ''AUTHENTICATION_ERROR'', details = JUndefined,
              requestInfo = Some info \<rparr>
          else if st = Some 403 then
            \<lparr> name = AuthorizationError, message = m, statusCode = Some 403,
              code = JStr ''AUTHORIZATION_ERROR'', details = JUndefined,
              requestInfo = Some info \<rparr>
          else if st = Some 404 then
            \<lparr> name = NotFoundError, message = ''Resource not found.'', statusCode = Some 404,
              code = JStr ''NOT_FOUND'', details = JUndefined, requestInfo = Some info \<rparr>
          else if st = Some 422 then
            \<lparr> name = ValidationError, message = m, statusCode = Some 422,
              code = JStr ''VALIDATION_ERROR'', details = dt, requestInfo = Some info \<rparr>
          else if st = Some 429 then
            \<lparr> name = RateLimitError, message = m, statusCode = Some 429,
              code = JStr ''RATE_LIMIT_ERROR'', details = JUndefined,
              requestInfo = Some info \<rparr>
          else if st = Some 500 \<or> st = Some 502 \<or> st = Some 503 \<or> st = Some 504 then
            \<lparr> name = ServerError, message = m, statusCode = Some 500,
              code = JStr ''SERVER_ERROR'', details = JUndefined, requestInfo = Some info \<rparr>
          else
            \<lparr> name = ElmapiError, message = m, statusCode = st, code = cd, details = dt,
              requestInfo = Some info \<rparr>)"
proof -
  from nn obtain pm pe pd pc where
    g: "get_prop (errorData_of P error) ''message'' = Some pm"
       "get_prop (errorData_of P error) ''error'' = Some pe"
       "get_prop (errorData_of P error) ''details'' = Some pd"
       "get_prop (errorData_of P error) ''code'' = Some pc"
    by (metis get_prop_None not_Some_eq)
  have nu: "msg \<noteq> JUndefined"
    unfolding msg by (rule js_or_fallback_defined)
  have c: "new_ElmapiError P cls msg sc c0 d0 ri =
             Inr \<lparr> name = cls, message = m, statusCode = sc, code = c0, details = d0,
                   requestInfo = ri \<rparr>" for cls sc c0 d0 ri
    using nu ts by (simp add: new_ElmapiError_def)
  have d: "default_to x msg = msg" for x
    using nu by (simp add: default_to_def)
  have msg': "js_or (js_or (js_or pm pe) (JStr (err_message error)))
                (JStr ''An unknown error occurred'') = msg"
    using g by (simp add: msg)
  show ?thesis
    unfolding createApiError_def Let_def
    using g
    by (simp add: msg' st [symmetric] dt cd c d
          new_AuthenticationError_def new_AuthorizationError_def new_NotFoundError_def
          new_ValidationError_def new_RateLimitError_def new_ServerError_def
          new_ElmapiError_JStr)
qed

text \<open>A body that the decoder rejects is wrapped: its raw text is the message.\<close>

lemma errorData_of_unparseable:
  "err_response error = Some r \<Longrightarrow> \<not> truthy (resp_body r) \<Longrightarrow> resp_text r = JStr s \<Longrightarrow>
   s \<noteq> [] \<Longrightarrow> JSON_parse P s = None \<Longrightarrow>
   errorData_of P error = JObj [(''message'', JStr s)]"
  by (simp add: errorData_of_def responseBody_of_def js_or_def)

text \<open>
  A truthy message need not convert to a non-empty string: the empty array is truthy and
  its ToString is empty.
\<close>

lemma createApiError_empty_array_message:
  "createApiError P (http_error 401 (JObj [(''message'', JArr [])]) txt msg) info =
     Inr \<lparr> name = AuthenticationError, message = [], statusCode = Some 401,
           code = JStr ''AUTHENTICATION_ERROR'', details = JUndefined,
           requestInfo = Some info \<rparr>"
  by (simp add: createApiError_def errorData_of_def responseBody_of_def http_error_def
        js_or_def new_AuthenticationError_def default_to_def new_ElmapiError_def)

text \<open>
  C1 (code defect). The claim: for every failed exchange that carries a response, the
  classification produces the error class that the status code determines. The lemma
  \<open>createApiError_by_status\<close> is that mapping, wherever the classifier returns. It does
  not return for every exchange: when the body of the response is the JSON text
  \<^verbatim>\<open>null\<close>, the transport's parsed body is \<^verbatim>\<open>null\<close>, the classifier falls back to the
  text and decodes it to \<^verbatim>\<open>null\<close> again, and its first property read throws. Whatever
  the status, the caller of \<^verbatim>\<open>request\<close> then gets a TypeError and no error of the
  taxonomy.
\<close>

theorem request_throws_TypeError_on_null_body:
  "JSON_parse P ''null'' = Some JNull \<Longrightarrow>
   T (sent s) (request_of (client s) method path params data)
     = Rejected (http_error st JNull (JStr ''null'') msg) \<Longrightarrow>
   fst (request P T method path params data s) = Inl TypeError"
  by (simp add: request_def await_request_def Let_def throw_def createApiError_def
        errorData_of_def responseBody_of_def http_error_def js_or_def)

theorem request_throws_TypeError_on_null_body_witness:
  "JSON_parse example_platform ''null'' = Some JNull
   \<and> always (Rejected (http_error 404 JNull (JStr ''null'') ''Not Found'')) []
         (request_of example_client ''GET'' ''/blog/42'' JUndefined JUndefined)
       = Rejected (http_error 404 JNull (JStr ''null'') ''Not Found'')
   \<and> fst (request example_platform
            (always (Rejected (http_error 404 JNull (JStr ''null'') ''Not Found'')))
            ''GET'' ''/blog/42'' JUndefined JUndefined
            \<lparr> client = example_client, sent = [] \<rparr>) = Inl TypeError"
proof -
  have h: "JSON_parse example_platform ''null'' = Some JNull"
    by (simp add: example_platform_def keyword_parse_def)
  have t: "always (Rejected (http_error 404 JNull (JStr ''null'') ''Not Found''))
             (sent \<lparr> client = example_client, sent = [] \<rparr>)
             (request_of (client \<lparr> client = example_client, sent = [] \<rparr>) ''GET'' ''/blog/42''
                JUndefined JUndefined)
           = Rejected (http_error 404 JNull (JStr ''null'') ''Not Found'')"
    by (simp add: always_def)
  from request_throws_TypeError_on_null_body
         [where T = "always (Rejected (http_error 404 JNull (JStr ''null'') ''Not Found''))"
            and s = "\<lparr> client = example_client, sent = [] \<rparr>", OF h t] h t
  show ?thesis by simp
qed

section \<open>The requests of the operations\<close>

text \<open>
  C2. Every call of an operation hands exactly one request to the transport. That
  request has the header \<^verbatim>\<open>project-id\<close> with the project identifier of the client, and
  it has the header \<^verbatim>\<open>Authorization\<close>, with the value \<^verbatim>\<open>Bearer\<close> followed by the token,
  exactly when the token of the client is not empty. The constructor stores the project
  identifier and the token of the configuration, and the empty token when none is
  configured.
\<close>

theorem request_headers:
  "(\<exists>r. sent (snd (perform P T op s)) = sent s @ [r]
       \<and> header r ''project-id'' = Some (projectId (client s))
       \<and> header r ''Authorization'' =
           (if accessToken (client s) = [] then None
            else Some (''Bearer '' @ accessToken (client s))))
   \<and> projectId (new_ApiClient config) = cfg_projectId config
   \<and> accessToken (new_ApiClient config) =
       (case cfg_accessToken config of None \<Rightarrow> [] | Some token \<Rightarrow> token)"
  by (simp add: snd_perform sent_request sent_uploadAsset header_def headers_request_of
        headers_upload_request_of new_ApiClient_def split: operation.splits)

theorem request_headers_witness:
  "sent (snd (perform example_platform
                (always (Fulfilled \<lparr> resp_status = 200, resp_body = JArr [],
                                     resp_text = JStr ''[]'' \<rparr>))
                GetCollections \<lparr> client = example_client, sent = [] \<rparr>))
     = [request_of example_client ''GET'' ''/collections'' JUndefined JUndefined]
   \<and> header (request_of example_client ''GET'' ''/collections'' JUndefined JUndefined)
       ''project-id'' = Some ''550e8400-e29b-41d4-a716-446655440000''
   \<and> header (request_of example_client ''GET'' ''/collections'' JUndefined JUndefined)
       ''Authorization'' = Some ''Bearer test-token''"
  using request_headers
          [of example_platform
              "always (Fulfilled \<lparr> resp_status = 200, resp_body = JArr [],
                                   resp_text = JStr ''[]'' \<rparr>)"
              GetCollections "\<lparr> client = example_client, sent = [] \<rparr>"]
  by (simp add: getCollections_def sent_request example_client_eq)

section \<open>The relabelling of a missing collection\<close>

lemma example_request_404:
  "request example_platform
     (always (Rejected (http_error 404 (JObj [(''message'', JStr ''No query results'')])
                          JUndefined ''Not Found'')))
     ''GET'' (''/collections/'' @ ''missing'') JUndefined JUndefined
     \<lparr> client = example_client, sent = [] \<rparr>
   = (Inl (Elmapi \<lparr> name = NotFoundError, message = ''Resource not found.'',
                     statusCode = Some 404, code = JStr ''NOT_FOUND'', details = JUndefined,
                     requestInfo =
                       Some (request_info_of example_client ''GET'' ''/collections/missing''
                               JUndefined JUndefined) \<rparr>),
      \<lparr> client = example_client,
        sent = [request_of example_client ''GET'' ''/collections/missing'' JUndefined
                  JUndefined] \<rparr>)"
  by (simp add: request_def await_request_def always_def http_error_def throw_def
        createApiError_def errorData_of_def responseBody_of_def js_or_def
        new_NotFoundError_def new_ElmapiError_JStr)

lemma example_request_403:
  "request example_platform
     (always (Rejected (http_error 403 (JObj [(''message'', JStr ''Forbidden project'')])
                          JUndefined ''Forbidden'')))
     ''GET'' (''/collections/'' @ ''missing'') JUndefined JUndefined
     \<lparr> client = example_client, sent = [] \<rparr>
   = (Inl (Elmapi \<lparr> name = AuthorizationError, message = ''Forbidden project'',
                     statusCode = Some 403, code = JStr ''AUTHORIZATION_ERROR'',
                     details = JUndefined,
                     requestInfo =
                       Some (request_info_of example_client ''GET'' ''/collections/missing''
                               JUndefined JUndefined) \<rparr>),
      \<lparr> client = example_client,
        sent = [request_of example_client ''GET'' ''/collections/missing'' JUndefined
                  JUndefined] \<rparr>)"
  by (simp add: request_def await_request_def always_def http_error_def throw_def
        createApiError_def errorData_of_def responseBody_of_def js_or_def
        new_AuthorizationError_def default_to_def new_ElmapiError_JStr)

text \<open>
  C3. Let the request of \<^verbatim>\<open>getCollection(slug)\<close> end with the result \<open>res\<close>. If \<open>res\<close>
  is a thrown \<^verbatim>\<open>NotFoundError\<close>, \<^verbatim>\<open>getCollection\<close> throws a new \<^verbatim>\<open>NotFoundError\<close> whose
  message is \<^verbatim>\<open>Collection '<slug>' not found.\<close>, the slug between two apostrophes
  (the character \<open>0x27\<close>), and whose \<^verbatim>\<open>requestInfo\<close> is that of the
  original error. In every other case (another error of the taxonomy, a TypeError, or a
  payload) the result of \<^verbatim>\<open>getCollection\<close> is \<open>res\<close>, unchanged.
\<close>

theorem getCollection_relabels_not_found:
  assumes "request P T ''GET'' (''/collections/'' @ collectionSlug) JUndefined JUndefined s
             = (res, s')"
  shows "(\<forall>e. res = Inl (Elmapi e) \<and> name e = NotFoundError \<longrightarrow>
            getCollection P T collectionSlug s =
              (Inl (Elmapi \<lparr> name = NotFoundError,
                              message = ''Collection '' @ [CHR 0x27] @ collectionSlug
                                          @ [CHR 0x27] @ '' not found.'',
                              statusCode = Some 404, code = JStr ''NOT_FOUND'',
                              details = JUndefined, requestInfo = requestInfo e \<rparr>), s'))
       \<and> ((\<forall>e. res = Inl (Elmapi e) \<longrightarrow> name e \<noteq> NotFoundError) \<longrightarrow>
            getCollection P T collectionSlug s = (res, s'))"
  using assms
  by (auto simp add: getCollection_def relabel_not_found_def new_NotFoundError_def
        new_ElmapiError_JStr throw_def quoted_def split: sum.splits thrown.splits)

theorem getCollection_relabels_not_found_witness:
  "getCollection example_platform
     (always (Rejected (http_error 404 (JObj [(''message'', JStr ''No query results'')])
                          JUndefined ''Not Found'')))
     ''missing'' \<lparr> client = example_client, sent = [] \<rparr>
   = (Inl (Elmapi \<lparr> name = NotFoundError,
                     message = ''Collection 'missing' not found.'',
                     statusCode = Some 404, code = JStr ''NOT_FOUND'', details = JUndefined,
                     requestInfo =
                       Some (request_info_of example_client ''GET'' ''/collections/missing''
                               JUndefined JUndefined) \<rparr>),
      \<lparr> client = example_client,
        sent = [request_of example_client ''GET'' ''/collections/missing'' JUndefined
                  JUndefined] \<rparr>)
   \<and> getCollection example_platform
     (always (Rejected (http_error 403 (JObj [(''message'', JStr ''Forbidden project'')])
                          JUndefined ''Forbidden'')))
     ''missing'' \<lparr> client = example_client, sent = [] \<rparr>
   = (Inl (Elmapi \<lparr> name = AuthorizationError, message = ''Forbidden project'',
                     statusCode = Some 403, code = JStr ''AUTHORIZATION_ERROR'',
                     details = JUndefined,
                     requestInfo =
                       Some (request_info_of example_client ''GET'' ''/collections/missing''
                               JUndefined JUndefined) \<rparr>),
      \<lparr> client = example_client,
        sent = [request_of example_client ''GET'' ''/collections/missing'' JUndefined
                  JUndefined] \<rparr>)"
  using getCollection_relabels_not_found [OF example_request_404]
        getCollection_relabels_not_found [OF example_request_403]
  by simp

section \<open>The multipart upload\<close>

text \<open>
  C4 (code defect). The claim: a request built by \<^verbatim>\<open>uploadAsset\<close> follows the header
  rules of \<^verbatim>\<open>request\<close>, asks for JSON responses with an \<^verbatim>\<open>Accept\<close> header, and has the
  configured timeout applied. The request that \<^verbatim>\<open>uploadAsset\<close> hands to the transport
  has no \<^verbatim>\<open>Accept\<close> header and no timeout, for every client, file and metadata; the
  request of \<^verbatim>\<open>request\<close> has the header \<^verbatim>\<open>Accept: application/json\<close> and the timeout of
  the client. (The \<^verbatim>\<open>requestInfo\<close> of \<^verbatim>\<open>uploadAsset\<close> records the timeout all the same.)
\<close>

theorem uploadAsset_omits_accept_and_timeout:
  "sent (snd (uploadAsset P T file metadata s))
     = sent s @ [upload_request_of P (client s) file metadata]
   \<and> header (upload_request_of P (client s) file metadata) ''Accept'' = None
   \<and> req_timeout (upload_request_of P (client s) file metadata) = None
   \<and> ri_timeout (upload_info_of (client s) file metadata) = timeout (client s)
   \<and> sent (snd (request P T method path params data s))
     = sent s @ [request_of (client s) method path params data]
   \<and> header (request_of (client s) method path params data) ''Accept''
     = Some ''application/json''
   \<and> req_timeout (request_of (client s) method path params data) = Some (timeout (client s))"
  by (simp add: sent_uploadAsset sent_request header_def headers_request_of
        headers_upload_request_of timeout_request_of timeout_upload_request_of
        upload_info_of_def)

section \<open>Failures of the transport\<close>

text \<open>
  C5. For a failure without a response, \<^verbatim>\<open>createNetworkError\<close> returns, and:
  when the code of the failure is \<^verbatim>\<open>ECONNABORTED\<close> or its \<^verbatim>\<open>timeout\<close> is truthy, the
  result is a \<^verbatim>\<open>TimeoutError\<close> whose message names the timeout of the request context
  (30000 in place of a zero), which for a client made by the constructor is the timeout
  of the client; otherwise, when the code is \<^verbatim>\<open>ENOTFOUND\<close> or \<^verbatim>\<open>ECONNREFUSED\<close>, the
  result is a \<^verbatim>\<open>NetworkError\<close> with the message about connectivity; otherwise it is a
  \<^verbatim>\<open>NetworkError\<close> with the message of the transport (a fixed text in place of an empty
  one). Each of them carries the request context.
\<close>

theorem createNetworkError_classes:
  "(err_code error = JStr ''ECONNABORTED'' \<or> truthy (err_timeout error) \<longrightarrow>
      createNetworkError P error info =
        Inr \<lparr> name = TimeoutError,
              message = ''Request timed out after ''
                @ Number_toString P (if ri_timeout info = 0 then 30000 else ri_timeout info)
                @ ''ms.'',
              statusCode = None, code = JStr ''TIMEOUT_ERROR'', details = JUndefined,
              requestInfo = Some info \<rparr>)
   \<and> (err_code error = JStr ''ECONNABORTED'' \<or> truthy (err_timeout error) \<longrightarrow>
      createNetworkError P error
          (request_info_of (new_ApiClient config) method path params data) =
        Inr \<lparr> name = TimeoutError,
              message = ''Request timed out after ''
                @ Number_toString P (timeout (new_ApiClient config)) @ ''ms.'',
              statusCode = None, code = JStr ''TIMEOUT_ERROR'', details = JUndefined,
              requestInfo =
                Some (request_info_of (new_ApiClient config) method path params data) \<rparr>)
   \<and> (\<not> (err_code error = JStr ''ECONNABORTED'' \<or> truthy (err_timeout error)) \<and>
      (err_code error = JStr ''ENOTFOUND'' \<or> err_code error = JStr ''ECONNREFUSED'') \<longrightarrow>
      createNetworkError P error info =
        Inr \<lparr> name = NetworkError,
              message = ''Unable to connect to the server. Please check your internet connection and the API URL.'',
              statusCode = None, code = JStr ''NETWORK_ERROR'', details = JUndefined,
              requestInfo = Some info \<rparr>)
   \<and> (\<not> (err_code error = JStr ''ECONNABORTED'' \<or> truthy (err_timeout error)) \<and>
      \<not> (err_code error = JStr ''ENOTFOUND'' \<or> err_code error = JStr ''ECONNREFUSED'') \<longrightarrow>
      createNetworkError P error info =
        Inr \<lparr> name = NetworkError,
              message = (if err_message error = [] then ''Network error occurred''
                         else err_message error),
              statusCode = None, code = JStr ''NETWORK_ERROR'', details = JUndefined,
              requestInfo = Some info \<rparr>)"
  by (simp add: createNetworkError_def new_TimeoutError_def new_NetworkError_def
        new_ElmapiError_JStr default_to_def js_or_def request_info_of_def
        new_ApiClient_def or_30000_nonzero)

theorem createNetworkError_classes_witness:
  "createNetworkError example_platform
     \<lparr> err_code = JStr ''ECONNABORTED'', err_timeout = JNum 30000,
       err_message = ''Timeout of 30000ms exceeded'', err_response = None \<rparr>
     (request_info_of example_client ''GET'' ''/collections'' JUndefined JUndefined)
   = Inr \<lparr> name = TimeoutError, message = ''Request timed out after 30000ms.'',
           statusCode = None, code = JStr ''TIMEOUT_ERROR'', details = JUndefined,
           requestInfo =
             Some (request_info_of example_client ''GET'' ''/collections'' JUndefined
                     JUndefined) \<rparr>
   \<and> createNetworkError example_platform
       \<lparr> err_code = JStr ''ECONNREFUSED'', err_timeout = JUndefined,
         err_message = ''connect ECONNREFUSED 127.0.0.1:443'', err_response = None \<rparr>
       (request_info_of example_client ''GET'' ''/collections'' JUndefined JUndefined)
     = Inr \<lparr> name = NetworkError,
             message = ''Unable to connect to the server. Please check your internet connection and the API URL.'',
             statusCode = None, code = JStr ''NETWORK_ERROR'', details = JUndefined,
             requestInfo =
               Some (request_info_of example_client ''GET'' ''/collections'' JUndefined
                       JUndefined) \<rparr>
   \<and> createNetworkError example_platform
       \<lparr> err_code = JStr ''ECONNRESET'', err_timeout = JUndefined,
         err_message = ''socket hang up'', err_response = None \<rparr>
       (request_info_of example_client ''GET'' ''/collections'' JUndefined JUndefined)
     = Inr \<lparr> name = NetworkError, message = ''socket hang up'',
             statusCode = None, code = JStr ''NETWORK_ERROR'', details = JUndefined,
             requestInfo =
               Some (request_info_of example_client ''GET'' ''/collections'' JUndefined
                       JUndefined) \<rparr>"
proof -
  have t: "ri_timeout (request_info_of example_client ''GET'' ''/collections'' JUndefined
              JUndefined) = 30000"
    by (simp add: request_info_of_def example_client_eq)
  have n: "Number_toString example_platform 30000 = ''30000''"
    by (simp add: example_platform_def decimal_30000)
  show ?thesis
    using createNetworkError_classes
            [of "\<lparr> err_code = JStr ''ECONNABORTED'', err_timeout = JNum 30000,
                   err_message = ''Timeout of 30000ms exceeded'', err_response = None \<rparr>"
                example_platform
                "request_info_of example_client ''GET'' ''/collections'' JUndefined JUndefined"]
          createNetworkError_classes
            [of "\<lparr> err_code = JStr ''ECONNREFUSED'', err_timeout = JUndefined,
                   err_message = ''connect ECONNREFUSED 127.0.0.1:443'',
                   err_response = None \<rparr>"
                example_platform
                "request_info_of example_client ''GET'' ''/collections'' JUndefined JUndefined"]
          createNetworkError_classes
            [of "\<lparr> err_code = JStr ''ECONNRESET'', err_timeout = JUndefined,
                   err_message = ''socket hang up'', err_response = None \<rparr>"
                example_platform
                "request_info_of example_client ''GET'' ''/collections'' JUndefined JUndefined"]
    by (simp add: t n)
qed

section \<open>Graceful degradation of the classifier\<close>

text \<open>
  C6 (code defect). The claim: for every status code and response body the classifier
  returns an error of the taxonomy, with a non-empty message, and never fails itself.
  The \<^verbatim>\<open>catch\<close> covers a body that does not decode (\<open>errorData_of_unparseable\<close>), but a
  body that decodes to \<^verbatim>\<open>null\<close> is not covered: for the response text \<^verbatim>\<open>null\<close>, with
  any status and any message of the transport, the classifier throws a TypeError.
\<close>

theorem classifier_throws_on_null_body:
  "JSON_parse P ''null'' = Some JNull \<Longrightarrow>
   createApiError P (http_error st JNull (JStr ''null'') msg) info = Inl TypeError"
  by (simp add: createApiError_def errorData_of_def responseBody_of_def http_error_def
        js_or_def)

theorem classifier_throws_on_null_body_witness:
  "JSON_parse example_platform ''null'' = Some JNull
   \<and> createApiError example_platform
         (http_error 500 JNull (JStr ''null'') ''Internal Server Error'')
         (request_info_of example_client ''GET'' ''/collections'' JUndefined JUndefined)
       = Inl TypeError"
proof -
  have h: "JSON_parse example_platform ''null'' = Some JNull"
    by (simp add: example_platform_def keyword_parse_def)
  from classifier_throws_on_null_body [OF h] h show ?thesis by simp
qed

section \<open>Validation of the configuration\<close>

text \<open>
  C7. \<^verbatim>\<open>createClient\<close> with an empty base path and an empty project identifier throws,
  for every token and timeout, a \<^verbatim>\<open>ValidationError\<close> whose details list both violations:
  the missing base path and the missing project identifier.
\<close>

theorem createClient_empty_configuration:
  "createClient P [] apiToken [] config_timeout =
     Inl (Elmapi
       \<lparr> name = ValidationError,
         message = ''Invalid client configuration: Base path is required, Project ID is required'',
         statusCode = Some 422, code = JStr ''VALIDATION_ERROR'',
         details = JObj [(''errors'', JArr [JStr ''Base path is required'',
                                            JStr ''Project ID is required''])],
         requestInfo = None \<rparr>)"
  by (simp add: createClient_def new_ApiClient_def validateConfiguration_def Let_def
        new_ValidationError_def new_ElmapiError_JStr throw_def)

section \<open>Deleting an entry\<close>

text \<open>
  C8. For every collection slug and uuid, \<^verbatim>\<open>deleteEntry(slug, uuid)\<close> without the
  \<^verbatim>\<open>force\<close> argument sends one \<^verbatim>\<open>DELETE\<close> request whose query parameters are the empty
  object, so it has no \<^verbatim>\<open>force\<close> parameter; \<^verbatim>\<open>deleteEntry(slug, uuid, true)\<close> sends one
  whose query parameters are \<^verbatim>\<open>{force: true}\<close>.
\<close>

theorem deleteEntry_force_parameter:
  "(\<exists>r. sent (snd (deleteEntry P T collectionSlug uuid JUndefined s)) = sent s @ [r]
        \<and> req_method r = ''DELETE''
        \<and> req_url r = basePath (client s) @ ''/'' @ collectionSlug @ ''/'' @ uuid
        \<and> req_query r = [JObj []]
        \<and> query_param (req_query r) ''force'' = None)
   \<and> (\<exists>r. sent (snd (deleteEntry P T collectionSlug uuid (JBool True) s)) = sent s @ [r]
        \<and> req_method r = ''DELETE''
        \<and> req_url r = basePath (client s) @ ''/'' @ collectionSlug @ ''/'' @ uuid
        \<and> req_query r = [JObj [(''force'', JBool True)]]
        \<and> query_param (req_query r) ''force'' = Some (JBool True))"
  by (simp add: deleteEntry_def sent_request force_params_def request_of_def Let_def
        superagent_def set_header_def query_def send_def set_timeout_def)

section \<open>The configuration of a client\<close>

text \<open>
  C9 (amended). The claim, as stated, gives the client the configured timeout whenever
  one is given. A configured timeout that is falsy for \<^verbatim>\<open>config.timeout || 30000\<close> is
  replaced as a missing one is: the client of a configuration with timeout 0 has the
  timeout 30000, and so has the client of a configuration with timeout \<^verbatim>\<open>NaN\<close>.
\<close>

theorem zero_timeout_counterexample:
  "createClient example_platform ''https://example.com/api'' ''test-token''
     ''550e8400-e29b-41d4-a716-446655440000'' (Some (Number 0))
   = Inr \<lparr> basePath = ''https://example.com/api'', accessToken = ''test-token'',
           projectId = ''550e8400-e29b-41d4-a716-446655440000'', timeout = 30000 \<rparr>
   \<and> timeout (new_ApiClient
                \<lparr> cfg_basePath = ''https://example.com/api'',
                  cfg_accessToken = Some ''test-token'',
                  cfg_projectId = ''550e8400-e29b-41d4-a716-446655440000'',
                  cfg_timeout = Some (Number 0) \<rparr>) \<noteq> 0
   \<and> createClient example_platform ''https://example.com/api'' ''test-token''
       ''550e8400-e29b-41d4-a716-446655440000'' (Some NaN)
     = Inr \<lparr> basePath = ''https://example.com/api'', accessToken = ''test-token'',
             projectId = ''550e8400-e29b-41d4-a716-446655440000'', timeout = 30000 \<rparr>
   \<and> timeout (new_ApiClient
                \<lparr> cfg_basePath = ''https://example.com/api'',
                  cfg_accessToken = Some ''test-token'',
                  cfg_projectId = ''550e8400-e29b-41d4-a716-446655440000'',
                  cfg_timeout = Some NaN \<rparr>) = 30000"
  by (simp add: createClient_def Let_def new_ApiClient_def or_30000_def
        validateConfiguration_def slashes_to_end_def)

lemma example_createClient:
  "createClient example_platform ''https://example.com/api//'' ''test-token''
     ''550e8400-e29b-41d4-a716-446655440000'' (Some (Number 5000))
   = Inr \<lparr> basePath = ''https://example.com/api'', accessToken = ''test-token'',
           projectId = ''550e8400-e29b-41d4-a716-446655440000'', timeout = 5000 \<rparr>"
  by (simp add: createClient_def Let_def new_ApiClient_def or_30000_def
        validateConfiguration_def slashes_to_end_def)

text \<open>
  C9, as the code has it. After construction, by the constructor or by \<^verbatim>\<open>createClient\<close>
  when it succeeds, the base path of the client is the configured base path with all
  trailing slashes stripped, and its timeout is the configured timeout when one is given
  and is truthy, that is neither zero nor \<^verbatim>\<open>NaN\<close>, and 30000 otherwise. No sequence of
  operations changes the client, so these fields keep their values.
\<close>

theorem client_configuration:
  "basePath (new_ApiClient config) = strip_trailing_slashes_spec (cfg_basePath config)
   \<and> timeout (new_ApiClient config) =
       (case cfg_timeout config of
          None \<Rightarrow> 30000
        | Some NaN \<Rightarrow> 30000
        | Some (Number n) \<Rightarrow> if n = 0 then 30000 else n)
   \<and> (createClient P baseUrl apiToken pid config_timeout = Inr c \<longrightarrow>
        basePath c = strip_trailing_slashes_spec baseUrl
        \<and> timeout c =
            (case config_timeout of
               None \<Rightarrow> 30000
             | Some NaN \<Rightarrow> 30000
             | Some (Number n) \<Rightarrow> if n = 0 then 30000 else n))
   \<and> client (perform_all P T ops s) = client s"
proof -
  have a: "basePath (new_ApiClient config) = strip_trailing_slashes_spec (cfg_basePath config)"
    by (simp add: new_ApiClient_def replace_trailing_slashes_spec)
  have b: "timeout (new_ApiClient config) =
       (case cfg_timeout config of
          None \<Rightarrow> 30000
        | Some NaN \<Rightarrow> 30000
        | Some (Number n) \<Rightarrow> if n = 0 then 30000 else n)"
    by (simp add: new_ApiClient_def or_30000_def split: option.splits jsnum.splits)
  have c: "createClient P baseUrl apiToken pid config_timeout = Inr c \<longrightarrow>
        basePath c = strip_trailing_slashes_spec baseUrl
        \<and> timeout c =
            (case config_timeout of
               None \<Rightarrow> 30000
             | Some NaN \<Rightarrow> 30000
             | Some (Number n) \<Rightarrow> if n = 0 then 30000 else n)"
    by (auto simp add: createClient_def Let_def new_ApiClient_def or_30000_def
          replace_trailing_slashes_spec
          split: sum.splits thrown.splits if_splits option.splits jsnum.splits)
  from a b c show ?thesis by (simp add: client_perform_all)
qed

theorem client_configuration_witness:
  "createClient example_platform ''https://example.com/api//'' ''test-token''
     ''550e8400-e29b-41d4-a716-446655440000'' (Some (Number 5000))
   = Inr \<lparr> basePath = ''https://example.com/api'', accessToken = ''test-token'',
           projectId = ''550e8400-e29b-41d4-a716-446655440000'', timeout = 5000 \<rparr>
   \<and> strip_trailing_slashes_spec ''https://example.com/api//'' = ''https://example.com/api''
   \<and> client (perform_all example_platform
               (always (Fulfilled \<lparr> resp_status = 200, resp_body = JObj [],
                                    resp_text = JStr ''{}'' \<rparr>))
               [GetCollections, DeleteEntry ''blog'' ''42'' (JBool True)]
               \<lparr> client = example_client, sent = [] \<rparr>) = example_client"
  using client_configuration
          [of "\<lparr> cfg_basePath = ''https://example.com/api//'',
                 cfg_accessToken = Some ''test-token'',
                 cfg_projectId = ''550e8400-e29b-41d4-a716-446655440000'',
                 cfg_timeout = Some (Number 5000) \<rparr>"
              example_platform "''https://example.com/api//''" "''test-token''"
              "''550e8400-e29b-41d4-a716-446655440000''" "Some (Number 5000)"
              "\<lparr> basePath = ''https://example.com/api'', accessToken = ''test-token'',
                 projectId = ''550e8400-e29b-41d4-a716-446655440000'', timeout = 5000 \<rparr>"
              "always (Fulfilled \<lparr> resp_status = 200, resp_body = JObj [],
                                   resp_text = JStr ''{}'' \<rparr>)"
              "[GetCollections, DeleteEntry ''blog'' ''42'' (JBool True)]"
              "\<lparr> client = example_client, sent = [] \<rparr>"]
        example_createClient
  by simp

section \<open>The status code of a server error\<close>

text \<open>
  C10. For a response with status 502, 503 or 504 the classifier does exactly what it
  does for the same response with status 500: the error it produces is a
  \<^verbatim>\<open>ServerError\<close> whose \<^verbatim>\<open>statusCode\<close> is 500, not the status of the response, and no
  other field of the error depends on that status.
\<close>

theorem server_error_forgets_status:
  assumes "err_response error = Some r"
    and "resp_status r = 502 \<or> resp_status r = 503 \<or> resp_status r = 504"
  shows "createApiError P error info =
           createApiError P (error\<lparr> err_response := Some (r\<lparr> resp_status := 500 \<rparr>) \<rparr>) info
         \<and> (\<forall>e. createApiError P error info = Inr e \<longrightarrow>
               name e = ServerError \<and> statusCode e = Some 500
               \<and> statusCode e \<noteq> Some (resp_status r)
               \<and> code e = JStr ''SERVER_ERROR'' \<and> details e = JUndefined
               \<and> requestInfo e = Some info)"
proof -
  have same: "createApiError P error info =
           createApiError P (error\<lparr> err_response := Some (r\<lparr> resp_status := 500 \<rparr>) \<rparr>) info"
    using assms
    by (auto simp add: createApiError_def errorData_of_status Let_def split: option.splits)
  have props: "\<forall>e. createApiError P error info = Inr e \<longrightarrow>
               name e = ServerError \<and> statusCode e = Some 500
               \<and> statusCode e \<noteq> Some (resp_status r)
               \<and> code e = JStr ''SERVER_ERROR'' \<and> details e = JUndefined
               \<and> requestInfo e = Some info"
    using assms
    by (auto simp add: createApiError_def Let_def new_ServerError_def new_ElmapiError_def
             split: option.splits if_splits)
  from same props show ?thesis by blast
qed

theorem server_error_forgets_status_witness:
  "err_response (http_error 503 (JObj []) (JStr ''Service Unavailable'') ''Service Unavailable'')
     = Some \<lparr> resp_status = 503, resp_body = JObj [], resp_text = JStr ''Service Unavailable'' \<rparr>
   \<and> createApiError example_platform
         (http_error 503 (JObj []) (JStr ''Service Unavailable'') ''Service Unavailable'')
         (request_info_of example_client ''GET'' ''/collections'' JUndefined JUndefined)
     = createApiError example_platform
         (http_error 500 (JObj []) (JStr ''Service Unavailable'') ''Service Unavailable'')
         (request_info_of example_client ''GET'' ''/collections'' JUndefined JUndefined)
   \<and> createApiError example_platform
         (http_error 503 (JObj []) (JStr ''Service Unavailable'') ''Service Unavailable'')
         (request_info_of example_client ''GET'' ''/collections'' JUndefined JUndefined)
     = Inr \<lparr> name = ServerError, message = ''Service Unavailable'', statusCode = Some 500,
             code = JStr ''SERVER_ERROR'', details = JUndefined,
             requestInfo =
               Some (request_info_of example_client ''GET'' ''/collections'' JUndefined
                       JUndefined) \<rparr>"
proof -
  have h: "err_response
             (http_error 503 (JObj []) (JStr ''Service Unavailable'') ''Service Unavailable'')
           = Some \<lparr> resp_status = 503, resp_body = JObj [],
                    resp_text = JStr ''Service Unavailable'' \<rparr>"
    by (simp add: http_error_def)
  have st: "resp_status \<lparr> resp_status = 503, resp_body = JObj [],
                          resp_text = JStr ''Service Unavailable'' \<rparr> = 502
            \<or> resp_status \<lparr> resp_status = 503, resp_body = JObj [],
                          resp_text = JStr ''Service Unavailable'' \<rparr> = 503
            \<or> resp_status \<lparr> resp_status = 503, resp_body = JObj [],
                          resp_text = JStr ''Service Unavailable'' \<rparr> = 504"
    by simp
  have v: "createApiError example_platform
             (http_error 503 (JObj []) (JStr ''Service Unavailable'') ''Service Unavailable'')
             (request_info_of example_client ''GET'' ''/collections'' JUndefined JUndefined)
           = Inr \<lparr> name = ServerError, message = ''Service Unavailable'',
                   statusCode = Some 500, code = JStr ''SERVER_ERROR'', details = JUndefined,
                   requestInfo =
                     Some (request_info_of example_client ''GET'' ''/collections'' JUndefined
                             JUndefined) \<rparr>"
    by (simp add: http_error_def createApiError_def errorData_of_def responseBody_of_def
          js_or_def new_ServerError_def default_to_def new_ElmapiError_JStr)
  from server_error_forgets_status [OF h st, of example_platform
         "request_info_of example_client ''GET'' ''/collections'' JUndefined JUndefined"]
  have "createApiError example_platform
          (http_error 503 (JObj []) (JStr ''Service Unavailable'') ''Service Unavailable'')
          (request_info_of example_client ''GET'' ''/collections'' JUndefined JUndefined)
        = createApiError example_platform
            (http_error 500 (JObj []) (JStr ''Service Unavailable'') ''Service Unavailable'')
            (request_info_of example_client ''GET'' ''/collections'' JUndefined JUndefined)"
    by (simp add: http_error_def)
  with h v show ?thesis by simp
qed

end
